theory Spec2Isabelle
  imports Main
begin

section \<open>TLS Lite + httplib: the adapter of tlslite/integration/httptlsconnection.py\<close>

text \<open>
  The module defines two classes over Python's \<open>httplib.HTTPConnection\<close>:
  \<open>HTTPBaseTLSConnection\<close>, whose \<open>connect()\<close> opens a raw socket, wraps it in a
  \<open>TLSConnection\<close>, stores the wrapper in \<open>self.sock\<close> and calls the overridable
  method \<open>self._handshake\<close>; and \<open>HTTPTLSConnection\<close>, which adds the credentials
  of \<open>ClientHelper\<close> and delegates \<open>_handshake\<close> to it.

  Python objects are modelled by their identity (a number handed out by an allocator),
  exceptions by values of \<open>error\<close>, and the calls a method makes on the outside world
  by the events it appends to a log.
\<close>

subsection \<open>Objects, exceptions and the outside world\<close>

text \<open>An exception that leaves a method. Only \<open>NotImplementedError\<close> is raised by the
  module itself (line 54); the others come from the socket module, from the TLS layer and
  from \<open>ClientHelper\<close>.\<close>

datatype error =
    NotImplementedError
  | ConfigurationError
  | SocketError string
  | HandshakeError string

text \<open>A \<open>TLSConnection\<close> object: its own identity and the raw socket handed to its
  constructor (\<open>TLSConnection(sock)\<close>, line 32).\<close>

record TLSConnection =
  tls_id :: nat
  tls_sock :: nat

text \<open>What \<open>connect()\<close> does to the outside world, in the order of the calls:
  \<open>socket.socket(AF_INET, SOCK_STREAM)\<close> returning a socket, \<open>sock.settimeout(t)\<close>,
  \<open>sock.connect((host, port))\<close>, \<open>TLSConnection(sock)\<close> returning a session, and
  \<open>self._handshake(session)\<close>.\<close>

datatype address_family = AF_INET | AF_INET6 | AF_UNIX

datatype socket_kind = SOCK_STREAM | SOCK_DGRAM

datatype event =
    EvSocket address_family socket_kind nat
  | EvSetTimeout nat int
  | EvConnect nat string int
  | EvTLSConnection TLSConnection
  | EvHandshake TLSConnection

text \<open>The world outside the adapter: the allocator of object identities, the raw sockets
  that are open (created and not closed), and the log of calls. The allocator and the log
  belong to the run-time system; program code reads and changes only the open sockets. A
  socket whose \<open>connect\<close> raised stays among the open ones: nothing in the module closes
  it, and what the garbage collector does later is not modelled.\<close>

record world =
  next_id :: nat
  opened :: "nat set"
  trace :: "event list"

text \<open>What the platform and the network decide, for the socket object of a given
  identity: whether \<open>socket.socket\<close> raises instead of returning it, whether a socket
  object has the attribute \<open>settimeout\<close> (Python 2.2 has none), whether
  \<open>sock.connect\<close> to an address raises, and whether the constructor of
  \<open>TLSConnection\<close> raises on it.\<close>

record env =
  socket_error :: "nat \<Rightarrow> error option"
  has_settimeout :: bool
  connect_error :: "nat \<Rightarrow> string \<Rightarrow> int \<Rightarrow> error option"
  tls_init_error :: "nat \<Rightarrow> error option"

definition log :: "event \<Rightarrow> world \<Rightarrow> world" where
  "log e w = w\<lparr>trace := trace w @ [e]\<rparr>"

text \<open>\<open>socket.socket(socket.AF_INET, socket.SOCK_STREAM)\<close>: a new socket object, open
  from its creation, or an exception.\<close>

definition socket_socket ::
  "env \<Rightarrow> address_family \<Rightarrow> socket_kind \<Rightarrow> world \<Rightarrow> error + (nat \<times> world)" where
  "socket_socket E family kind w =
     (case socket_error E (next_id w) of
        Some e \<Rightarrow> Inl e
      | None \<Rightarrow>
          Inr (next_id w,
               log (EvSocket family kind (next_id w))
                 (w\<lparr>next_id := Suc (next_id w), opened := insert (next_id w) (opened w)\<rparr>)))"

text \<open>\<open>sock.settimeout(t)\<close>.\<close>

definition settimeout :: "nat \<Rightarrow> int \<Rightarrow> world \<Rightarrow> world" where
  "settimeout sk t w = log (EvSetTimeout sk t) w"

text \<open>\<open>sock.connect((host, port))\<close>: the call is logged, then it returns or raises.\<close>

definition sock_connect :: "env \<Rightarrow> nat \<Rightarrow> string \<times> int \<Rightarrow> world \<Rightarrow> error option \<times> world" where
  "sock_connect E sk addr w =
     (connect_error E sk (fst addr) (snd addr), log (EvConnect sk (fst addr) (snd addr)) w)"

text \<open>Modelled from the spec: the constructor of \<open>TLSConnection\<close>
  (tlslite/tlsconnection.py is not among the sources). The spec's Secure Session "wraps
  exactly one raw socket", and its construction may fail ("any failure during socket
  creation, secure-session construction, or handshake aborts connect()"). A new object is
  allocated; the socket stays as it is.\<close>

definition TLSConnection_init :: "env \<Rightarrow> nat \<Rightarrow> world \<Rightarrow> error + (TLSConnection \<times> world)" where
  "TLSConnection_init E sk w =
     (case tls_init_error E sk of
        Some e \<Rightarrow> Inl e
      | None \<Rightarrow>
          Inr (\<lparr>tls_id = next_id w, tls_sock = sk\<rparr>,
               log (EvTLSConnection \<lparr>tls_id = next_id w, tls_sock = sk\<rparr>)
                 (w\<lparr>next_id := Suc (next_id w)\<rparr>)))"

subsection \<open>The adapter object\<close>

text \<open>How a parameter with a default reached a constructor of the standard library:
  left out of the call, or passed.\<close>

datatype 'a arg = Omitted | Passed 'a

text \<open>The attributes of an \<open>HTTPBaseTLSConnection\<close> that the module reads or writes:
  \<open>host\<close> and \<open>port\<close> (set by \<open>httplib.HTTPConnection.__init__\<close>, read at line 29),
  \<open>strict\<close> as the base constructor received it, and \<open>sock\<close>, the transport handle
  (\<open>None\<close> until \<open>connect()\<close> assigns it at line 32).\<close>

record HTTPBaseTLSConnection =
  host :: string
  port :: int
  strict :: "bool arg"
  sock :: "TLSConnection option"

text \<open>The method \<open>_handshake(self, tlsConnection)\<close>, resolved on the class of \<open>self\<close>
  when \<open>connect()\<close> calls it. It receives the object and the session, may close sockets
  and assign attributes of \<open>self\<close>, and returns normally (\<open>None\<close>) or raises.\<close>

type_synonym 'm hook =
  "'m HTTPBaseTLSConnection_scheme \<Rightarrow> TLSConnection \<Rightarrow> nat set
     \<Rightarrow> error option \<times> 'm HTTPBaseTLSConnection_scheme \<times> nat set"

text \<open>\<open>HTTPBaseTLSConnection._handshake\<close> (lines 37-54): \<open>raise NotImplementedError()\<close>.\<close>

definition HTTPBaseTLSConnection_handshake :: "'m hook" where
  "HTTPBaseTLSConnection_handshake self tlsConnection socks = (Some NotImplementedError, self, socks)"

text \<open>\<open>HTTPBaseTLSConnection.connect\<close> (lines 25-35). An exception of a call ends the
  method there, with the attributes and the world as they are at that point. The call of
  \<open>self._handshake(self.sock)\<close> is logged before the method runs.\<close>

definition connect ::
  "'m hook \<Rightarrow> env \<Rightarrow> 'm HTTPBaseTLSConnection_scheme \<Rightarrow> world
     \<Rightarrow> error option \<times> 'm HTTPBaseTLSConnection_scheme \<times> world" where
  "connect handshake E self w =
     (case socket_socket E AF_INET SOCK_STREAM w of
        Inl e \<Rightarrow> (Some e, self, w)
      | Inr (sk, w1) \<Rightarrow>
          let w2 = (if has_settimeout E then settimeout sk 10 w1 else w1) in
          (case sock_connect E sk (host self, port self) w2 of
             (Some e, w3) \<Rightarrow> (Some e, self, w3)
           | (None, w3) \<Rightarrow>
               (case TLSConnection_init E sk w3 of
                  Inl e \<Rightarrow> (Some e, self, w3)
                | Inr (tls, w4) \<Rightarrow>
                    let self1 = self\<lparr>sock := Some tls\<rparr>;
                        w5 = log (EvHandshake tls) w4
                    in (case handshake self1 tls (opened w5) of
                          (r, self2, socks) \<Rightarrow> (r, self2, w5\<lparr>opened := socks\<rparr>)))))"

subsection \<open>Construction\<close>

text \<open>The class attribute \<open>default_port = 443\<close> (line 16).\<close>

definition default_port :: int where
  "default_port = 443"

text \<open>Modelled from the spec: \<open>httplib.HTTPConnection.__init__(self, host, port, strict)\<close>,
  the constructor of the standard library's HTTP connection, which is not among the
  sources. In the spec's words it "stores target; does not touch the network. Port
  defaults to 443 if omitted": the port left out (\<open>None\<close>) becomes the class attribute
  \<open>default_port\<close> of the object under construction, the host is stored as given, and the
  transport handle starts as \<open>None\<close>. The argument \<open>strict\<close> is recorded the way the call
  supplied it. (The standard library also accepts a host of the form "name:port"; the host
  is taken here as a plain name.)\<close>

definition HTTPConnection_init ::
  "int \<Rightarrow> string \<Rightarrow> int option \<Rightarrow> bool arg \<Rightarrow> world \<Rightarrow> HTTPBaseTLSConnection \<times> world" where
  "HTTPConnection_init class_default_port h p s w =
     (\<lparr>host = h, port = (case p of None \<Rightarrow> class_default_port | Some n \<Rightarrow> n),
       strict = s, sock = None\<rparr>, w)"

text \<open>\<open>HTTPBaseTLSConnection.__init__(self, host, port=None, strict=None)\<close> (lines 18-23):
  \<open>strict == None\<close> chooses the call of the base constructor without \<open>strict\<close>.\<close>

definition HTTPBaseTLSConnection_init ::
  "string \<Rightarrow> int option \<Rightarrow> bool option \<Rightarrow> world \<Rightarrow> HTTPBaseTLSConnection \<times> world" where
  "HTTPBaseTLSConnection_init h p s w =
     (case s of
        None \<Rightarrow> HTTPConnection_init default_port h p Omitted w
      | Some b \<Rightarrow> HTTPConnection_init default_port h p (Passed b) w)"

text \<open>The attributes \<open>ClientHelper\<close> adds to an \<open>HTTPTLSConnection\<close>. Certificate
  chains, private keys and settings are opaque objects, modelled by their identity.\<close>

record HTTPTLSConnection = HTTPBaseTLSConnection +
  username :: "string option"
  password :: "string option"
  certChain :: "nat option"
  privateKey :: "nat option"
  x509Fingerprint :: "string option"
  settings :: "nat option"

text \<open>The credential pairing invariant of the spec's data model: "username/password and
  certificateChain/privateKey are each all-or-nothing pairs".\<close>

definition pairing_ok ::
  "string option \<Rightarrow> string option \<Rightarrow> nat option \<Rightarrow> nat option \<Rightarrow> bool" where
  "pairing_ok u pw c k = (((u = None) = (pw = None)) \<and> ((c = None) = (k = None)))"

text \<open>Modelled from the spec: \<open>ClientHelper.__init__\<close>
  (tlslite/integration/clienthelper.py is not among the sources). The spec: "supplying one
  half without the other is a configuration error", "surfaced synchronously, before any
  network I/O, as a rejection of the adapter's parameters", by "a constructor-time
  validation step producing a configuration-error result before any resource is
  acquired"; the two kinds of credential "may be used standalone or together". On
  success the object holds the credential set, the pinned fingerprint and the settings as
  they were supplied.\<close>

definition ClientHelper_init ::
  "HTTPBaseTLSConnection \<Rightarrow> string option \<Rightarrow> string option \<Rightarrow> nat option \<Rightarrow> nat option
     \<Rightarrow> string option \<Rightarrow> nat option \<Rightarrow> world \<Rightarrow> (error + HTTPTLSConnection) \<times> world" where
  "ClientHelper_init self u pw c k f st w =
     (if pairing_ok u pw c k
      then (Inr \<lparr>host = host self, port = port self, strict = strict self, sock = sock self,
                 username = u, password = pw, certChain = c, privateKey = k,
                 x509Fingerprint = f, settings = st\<rparr>, w)
      else (Inl ConfigurationError, w))"

text \<open>\<open>HTTPTLSConnection.__init__\<close> (lines 61-130): the base constructor with host and
  port only (so its \<open>strict\<close> is the default \<open>None\<close>), then \<open>ClientHelper.__init__\<close> with
  the six remaining arguments.\<close>

definition HTTPTLSConnection_init ::
  "string \<Rightarrow> int option \<Rightarrow> string option \<Rightarrow> string option \<Rightarrow> nat option \<Rightarrow> nat option
     \<Rightarrow> string option \<Rightarrow> nat option \<Rightarrow> world \<Rightarrow> (error + HTTPTLSConnection) \<times> world" where
  "HTTPTLSConnection_init h p u pw c k f st w =
     (case HTTPBaseTLSConnection_init h p None w of
        (self, w1) \<Rightarrow> ClientHelper_init self u pw c k f st w1)"

text \<open>\<open>HTTPTLSConnection._handshake\<close> (lines 132-133) calls
  \<open>ClientHelper._handshake(self, tlsConnection)\<close> and does nothing else. That method
  is not among the sources; it is a parameter.\<close>

definition HTTPTLSConnection_handshake :: "'m hook \<Rightarrow> 'm hook" where
  "HTTPTLSConnection_handshake ClientHelper_handshake self tlsConnection socks =
     ClientHelper_handshake self tlsConnection socks"

subsection \<open>Observing a call\<close>

text \<open>The three components of what a call of \<open>connect()\<close> leaves: the exception it
  raised (\<open>None\<close> when it returned), the object, and the world.\<close>

definition raised :: "error option \<times> 'a \<times> world \<Rightarrow> error option" where
  "raised r = fst r"

definition object_after :: "error option \<times> 'a \<times> world \<Rightarrow> 'a" where
  "object_after r = fst (snd r)"

definition world_after :: "error option \<times> 'a \<times> world \<Rightarrow> world" where
  "world_after r = snd (snd r)"

text \<open>The calls logged between two worlds.\<close>

definition new_events :: "world \<Rightarrow> world \<Rightarrow> event list" where
  "new_events w w' = drop (length (trace w)) (trace w')"

text \<open>The session a call of \<open>connect()\<close> in world \<open>w\<close> creates: the socket gets the next
  identity, the session the one after.\<close>

definition new_session :: "world \<Rightarrow> TLSConnection" where
  "new_session w = \<lparr>tls_id = Suc (next_id w), tls_sock = next_id w\<rparr>"

text \<open>The calls of lines 26-29: create the socket, set its timeout where the platform can,
  connect it.\<close>

definition opening_steps :: "env \<Rightarrow> string \<Rightarrow> int \<Rightarrow> nat \<Rightarrow> event list" where
  "opening_steps E h p sk =
     EvSocket AF_INET SOCK_STREAM sk
       # (if has_settimeout E then [EvSetTimeout sk 10] else []) @ [EvConnect sk h p]"

text \<open>No call before the hook raises: the socket is created and connected and the session
  is constructed.\<close>

definition reaches_hook :: "env \<Rightarrow> 'm HTTPBaseTLSConnection_scheme \<Rightarrow> world \<Rightarrow> bool" where
  "reaches_hook E self w =
     (socket_error E (next_id w) = None
      \<and> connect_error E (next_id w) (host self) (port self) = None
      \<and> tls_init_error E (next_id w) = None)"

text \<open>The invocation of the hook that \<open>connect()\<close> makes in world \<open>w\<close>: on the object
  whose \<open>sock\<close> is already the new session, with the new session as argument, the new
  socket being open.\<close>

definition hook_call ::
  "'m hook \<Rightarrow> 'm HTTPBaseTLSConnection_scheme \<Rightarrow> world
     \<Rightarrow> error option \<times> 'm HTTPBaseTLSConnection_scheme \<times> nat set" where
  "hook_call handshake self w =
     handshake (self\<lparr>sock := Some (new_session w)\<rparr>) (new_session w)
       (insert (next_id w) (opened w))"

text \<open>The exception of the first call before the hook that raises, if one does.\<close>

definition transport_error ::
  "env \<Rightarrow> 'm HTTPBaseTLSConnection_scheme \<Rightarrow> world \<Rightarrow> error option" where
  "transport_error E self w =
     (case socket_error E (next_id w) of
        Some e \<Rightarrow> Some e
      | None \<Rightarrow>
          (case connect_error E (next_id w) (host self) (port self) of
             Some e \<Rightarrow> Some e
           | None \<Rightarrow> tls_init_error E (next_id w)))"

text \<open>The timeouts set on sockets, in the order of the calls of \<open>settimeout\<close>.\<close>

fun timeouts_applied :: "event list \<Rightarrow> (nat \<times> int) list" where
  "timeouts_applied [] = []"
| "timeouts_applied (EvSetTimeout sk t # evs) = (sk, t) # timeouts_applied evs"
| "timeouts_applied (e # evs) = timeouts_applied evs"

text \<open>The adapter owns a live raw socket: its transport handle is a session whose raw
  socket is open.\<close>

definition owns_live_socket :: "'m HTTPBaseTLSConnection_scheme \<Rightarrow> world \<Rightarrow> bool" where
  "owns_live_socket self w = (case sock self of None \<Rightarrow> False | Some t \<Rightarrow> tls_sock t \<in> opened w)"

text \<open>The invocations of the hook on sessions over the raw socket \<open>sk\<close>, counted in a
  log.\<close>

fun is_handshake_on :: "nat \<Rightarrow> event \<Rightarrow> bool" where
  "is_handshake_on sk (EvHandshake t) = (tls_sock t = sk)"
| "is_handshake_on sk e = False"

definition handshakes_on :: "nat \<Rightarrow> event list \<Rightarrow> nat" where
  "handshakes_on sk evs = length (filter (is_handshake_on sk) evs)"

text \<open>The identities of the objects a logged call works on: sockets and sessions.\<close>

fun event_ids :: "event \<Rightarrow> nat list" where
  "event_ids (EvSocket family kind sk) = [sk]"
| "event_ids (EvSetTimeout sk t) = [sk]"
| "event_ids (EvConnect sk h p) = [sk]"
| "event_ids (EvTLSConnection t) = [tls_id t, tls_sock t]"
| "event_ids (EvHandshake t) = [tls_id t, tls_sock t]"

definition ids_of :: "event list \<Rightarrow> nat set" where
  "ids_of evs = set (concat (map event_ids evs))"

text \<open>\<open>n\<close> calls of \<open>connect()\<close> on one adapter, one after the other, whether they
  raise or return (the HTTP layer calls \<open>connect()\<close> again when it reconnects).\<close>

fun connects ::
  "'m hook \<Rightarrow> env \<Rightarrow> nat \<Rightarrow> 'm HTTPBaseTLSConnection_scheme \<Rightarrow> world
     \<Rightarrow> 'm HTTPBaseTLSConnection_scheme \<times> world" where
  "connects handshake E 0 self w = (self, w)"
| "connects handshake E (Suc n) self w =
     connects handshake E n (object_after (connect handshake E self w))
       (world_after (connect handshake E self w))"


text \<open>Every identity in the log has been handed out by the allocator.\<close>

definition trace_below :: "world \<Rightarrow> bool" where
  "trace_below w = (\<forall>i \<in> ids_of (trace w). i < next_id w)"

subsection \<open>Example objects\<close>

text \<open>A world in which nothing has happened yet; a platform and network on which every
  call succeeds; a base adapter and an \<open>HTTPTLSConnection\<close> with the SRP pair
  alice/secret, both for example.test:443; a hook that raises a handshake error and a hook
  that returns, both leaving the object and the sockets alone.\<close>

definition initial_world :: world where
  "initial_world = \<lparr>next_id = 0, opened = {}, trace = []\<rparr>"

definition reachable_env :: env where
  "reachable_env =
     \<lparr>socket_error = (\<lambda>sk. None), has_settimeout = True,
      connect_error = (\<lambda>sk h p. None), tls_init_error = (\<lambda>sk. None)\<rparr>"

definition example_base :: HTTPBaseTLSConnection where
  "example_base = \<lparr>host = ''example.test'', port = 443, strict = Omitted, sock = None\<rparr>"

definition example_client :: HTTPTLSConnection where
  "example_client =
     \<lparr>host = ''example.test'', port = 443, strict = Omitted, sock = None,
      username = Some ''alice'', password = Some ''secret'', certChain = None,
      privateKey = None, x509Fingerprint = None, settings = None\<rparr>"

definition failing_handshake :: "'m hook" where
  "failing_handshake self tlsConnection socks =
     (Some (HandshakeError ''handshake_failure''), self, socks)"

definition accepting_handshake :: "'m hook" where
  "accepting_handshake self tlsConnection socks = (None, self, socks)"

subsection \<open>The shape of a call\<close>

lemma raised_simp [simp]: "raised (r, a, w) = r"
  by (simp add: raised_def)

lemma object_after_simp [simp]: "object_after (r, a, w) = a"
  by (simp add: object_after_def)

lemma world_after_simp [simp]: "world_after (r, a, w) = w"
  by (simp add: world_after_def)

lemma connect_socket_raises:
  assumes "socket_error E (next_id w) = Some e"
  shows "connect hs E self w = (Some e, self, w)"
  using assms by (simp add: connect_def socket_socket_def)

lemma connect_connect_raises:
  assumes "socket_error E (next_id w) = None"
    and "connect_error E (next_id w) (host self) (port self) = Some e"
  shows "connect hs E self w =
    (Some e, self,
     w\<lparr>next_id := Suc (next_id w), opened := insert (next_id w) (opened w),
       trace := trace w @ opening_steps E (host self) (port self) (next_id w)\<rparr>)"
  using assms
  by (simp add: connect_def socket_socket_def sock_connect_def settimeout_def log_def
      opening_steps_def Let_def)

lemma connect_tls_init_raises:
  assumes "socket_error E (next_id w) = None"
    and "connect_error E (next_id w) (host self) (port self) = None"
    and "tls_init_error E (next_id w) = Some e"
  shows "connect hs E self w =
    (Some e, self,
     w\<lparr>next_id := Suc (next_id w), opened := insert (next_id w) (opened w),
       trace := trace w @ opening_steps E (host self) (port self) (next_id w)\<rparr>)"
  using assms
  by (simp add: connect_def socket_socket_def sock_connect_def settimeout_def log_def
      opening_steps_def TLSConnection_init_def Let_def)

lemma connect_reaches_hook:
  assumes "reaches_hook E self w"
  shows "connect hs E self w =
    (fst (hook_call hs self w), fst (snd (hook_call hs self w)),
     w\<lparr>next_id := Suc (Suc (next_id w)), opened := snd (snd (hook_call hs self w)),
       trace := trace w @ opening_steps E (host self) (port self) (next_id w)
                  @ [EvTLSConnection (new_session w), EvHandshake (new_session w)]\<rparr>)"
  using assms
  by (simp add: connect_def socket_socket_def sock_connect_def settimeout_def log_def
      opening_steps_def TLSConnection_init_def Let_def reaches_hook_def hook_call_def
      new_session_def split: prod.splits)

lemma connect_cases [case_names socket_raises connect_raises tls_init_raises hook_called]:
  obtains
    (socket_raises) e where "socket_error E (next_id w) = Some e"
      and "connect hs E self w = (Some e, self, w)"
  | (connect_raises) e where "socket_error E (next_id w) = None"
      and "connect_error E (next_id w) (host self) (port self) = Some e"
      and "connect hs E self w =
        (Some e, self,
         w\<lparr>next_id := Suc (next_id w), opened := insert (next_id w) (opened w),
           trace := trace w @ opening_steps E (host self) (port self) (next_id w)\<rparr>)"
  | (tls_init_raises) e where "socket_error E (next_id w) = None"
      and "connect_error E (next_id w) (host self) (port self) = None"
      and "tls_init_error E (next_id w) = Some e"
      and "connect hs E self w =
        (Some e, self,
         w\<lparr>next_id := Suc (next_id w), opened := insert (next_id w) (opened w),
           trace := trace w @ opening_steps E (host self) (port self) (next_id w)\<rparr>)"
  | (hook_called) "socket_error E (next_id w) = None"
      and "connect_error E (next_id w) (host self) (port self) = None"
      and "tls_init_error E (next_id w) = None"
      and "reaches_hook E self w"
      and "connect hs E self w =
        (fst (hook_call hs self w), fst (snd (hook_call hs self w)),
         w\<lparr>next_id := Suc (Suc (next_id w)), opened := snd (snd (hook_call hs self w)),
           trace := trace w @ opening_steps E (host self) (port self) (next_id w)
                      @ [EvTLSConnection (new_session w), EvHandshake (new_session w)]\<rparr>)"
proof (cases "socket_error E (next_id w)")
  case (Some e)
  then show ?thesis
    using socket_raises connect_socket_raises by blast
next
  case sock_ok: None
  show ?thesis
  proof (cases "connect_error E (next_id w) (host self) (port self)")
    case (Some e)
    with sock_ok show ?thesis
      using connect_raises connect_connect_raises by blast
  next
    case conn_ok: None
    show ?thesis
    proof (cases "tls_init_error E (next_id w)")
      case (Some e)
      with sock_ok conn_ok show ?thesis
        using tls_init_raises connect_tls_init_raises by blast
    next
      case None
      with sock_ok conn_ok have "reaches_hook E self w"
        by (simp add: reaches_hook_def)
      with sock_ok conn_ok None show ?thesis
        using hook_called connect_reaches_hook by blast
    qed
  qed
qed

lemma reaches_hook_iff: "reaches_hook E self w = (transport_error E self w = None)"
  by (simp add: reaches_hook_def transport_error_def split: option.splits)

lemma connect_raised:
  "raised (connect hs E self w) =
     (case transport_error E self w of Some e \<Rightarrow> Some e | None \<Rightarrow> fst (hook_call hs self w))"
  by (cases rule: connect_cases [where E=E and w=w and self=self and hs=hs])
     (simp_all add: transport_error_def)

lemma connect_new_events:
  "new_events w (world_after (connect hs E self w)) =
     (if socket_error E (next_id w) = None
      then opening_steps E (host self) (port self) (next_id w) @
           (if connect_error E (next_id w) (host self) (port self) = None
               \<and> tls_init_error E (next_id w) = None
            then [EvTLSConnection (new_session w), EvHandshake (new_session w)] else [])
      else [])"
  by (cases rule: connect_cases [where E=E and w=w and self=self and hs=hs])
     (simp_all add: new_events_def)

lemma connect_object_early:
  "\<not> reaches_hook E self w \<Longrightarrow> object_after (connect hs E self w) = self"
  by (cases rule: connect_cases [where E=E and w=w and self=self and hs=hs]) simp_all

lemma connect_object:
  "object_after (connect hs E self w) =
     (if reaches_hook E self w then fst (snd (hook_call hs self w)) else self)"
  by (cases rule: connect_cases [where E=E and w=w and self=self and hs=hs])
     (simp_all add: reaches_hook_def)

lemma connect_opened:
  "opened (world_after (connect hs E self w)) =
     (if reaches_hook E self w then snd (snd (hook_call hs self w))
      else if socket_error E (next_id w) = None then insert (next_id w) (opened w)
      else opened w)"
  by (cases rule: connect_cases [where E=E and w=w and self=self and hs=hs])
     (simp_all add: reaches_hook_def)

lemma connect_swap_timeout_raised:
  "raised (connect hs (E\<lparr>has_settimeout := b\<rparr>) self w) = raised (connect hs E self w)"
  by (simp add: connect_raised transport_error_def cong: option.case_cong)

lemma timeouts_applied_opening:
  "timeouts_applied (opening_steps E h p sk @ evs) =
     (if has_settimeout E then (sk, 10) # timeouts_applied evs else timeouts_applied evs)"
  by (simp add: opening_steps_def)

lemma connect_trace:
  "trace (world_after (connect hs E self w)) =
     trace w @ new_events w (world_after (connect hs E self w))"
  by (cases rule: connect_cases [where E=E and w=w and self=self and hs=hs])
     (simp_all add: new_events_def)

lemma connect_next_id:
  "next_id (world_after (connect hs E self w)) =
     (if socket_error E (next_id w) = None
      then (if reaches_hook E self w then Suc (Suc (next_id w)) else Suc (next_id w))
      else next_id w)"
  by (cases rule: connect_cases [where E=E and w=w and self=self and hs=hs])
     (simp_all add: reaches_hook_def)

lemma connect_next_id_mono: "next_id w \<le> next_id (world_after (connect hs E self w))"
  by (simp add: connect_next_id)

lemma ids_of_append: "ids_of (xs @ ys) = ids_of xs \<union> ids_of ys"
  by (simp add: ids_of_def)

lemma ids_of_opening_steps: "ids_of (opening_steps E h p sk) = {sk}"
  by (simp add: ids_of_def opening_steps_def)

lemma ids_of_Nil: "ids_of [] = {}"
  by (simp add: ids_of_def)

lemma ids_of_session_steps: "ids_of [EvTLSConnection t, EvHandshake t] = {tls_id t, tls_sock t}"
  by (auto simp: ids_of_def)

lemma connect_new_ids:
  "ids_of (new_events w (world_after (connect hs E self w)))
     \<subseteq> {i. next_id w \<le> i \<and> i < next_id (world_after (connect hs E self w))}"
  by (auto simp: connect_new_events connect_next_id ids_of_append ids_of_opening_steps
      ids_of_session_steps ids_of_Nil reaches_hook_def new_session_def)

lemma connect_trace_below:
  assumes "trace_below w"
  shows "trace_below (world_after (connect hs E self w))"
proof -
  have old: "\<forall>i \<in> ids_of (trace w). i < next_id (world_after (connect hs E self w))"
    using assms connect_next_id_mono [of w hs E self]
    by (fastforce simp: trace_below_def)
  have new: "\<forall>i \<in> ids_of (new_events w (world_after (connect hs E self w))).
               i < next_id (world_after (connect hs E self w))"
    using connect_new_ids [of w hs E self] by blast
  show ?thesis
    unfolding trace_below_def
    by (subst connect_trace) (use old new in \<open>auto simp: ids_of_append\<close>)
qed

lemma handshakes_on_append:
  "handshakes_on sk (xs @ ys) = handshakes_on sk xs + handshakes_on sk ys"
  by (simp add: handshakes_on_def)

lemma handshakes_on_opening_steps: "handshakes_on sk (opening_steps E h p n) = 0"
  by (simp add: handshakes_on_def opening_steps_def)

lemma handshakes_on_Nil: "handshakes_on sk [] = 0"
  by (simp add: handshakes_on_def)

lemma handshakes_on_session_steps:
  "handshakes_on sk [EvTLSConnection t, EvHandshake t] = (if tls_sock t = sk then 1 else 0)"
  by (simp add: handshakes_on_def)

lemma handshakes_on_new_events:
  "handshakes_on sk (new_events w (world_after (connect hs E self w))) =
     (if reaches_hook E self w \<and> sk = next_id w then 1 else 0)"
  by (auto simp: connect_new_events handshakes_on_append handshakes_on_opening_steps
      handshakes_on_session_steps handshakes_on_Nil reaches_hook_def new_session_def)

lemma handshakes_on_unknown_socket:
  "sk \<notin> ids_of evs \<Longrightarrow> handshakes_on sk evs = 0"
proof (induction evs)
  case Nil
  then show ?case by (simp add: handshakes_on_def)
next
  case (Cons e evs)
  then show ?case
    by (cases e) (auto simp: handshakes_on_def ids_of_def)
qed

lemma handshakes_on_fresh_socket:
  assumes "trace_below w"
  shows "handshakes_on (next_id w) (trace w) = 0"
proof -
  have "next_id w \<notin> ids_of (trace w)"
    using assms by (auto simp: trace_below_def)
  then show ?thesis
    by (rule handshakes_on_unknown_socket)
qed

lemma connect_handshakes_once:
  assumes "trace_below w" and "\<forall>sk. handshakes_on sk (trace w) \<le> 1"
  shows "handshakes_on sk (trace (world_after (connect hs E self w))) \<le> 1"
proof (cases "sk = next_id w")
  case True
  then show ?thesis
    using handshakes_on_fresh_socket [OF assms(1)]
    by (simp add: connect_trace handshakes_on_append handshakes_on_new_events)
next
  case False
  then show ?thesis
    using assms(2) by (simp add: connect_trace handshakes_on_append handshakes_on_new_events)
qed

lemma connects_handshakes_once:
  assumes "trace_below w" and "\<forall>sk. handshakes_on sk (trace w) \<le> 1"
  shows "handshakes_on sk (trace (snd (connects hs E n self w))) \<le> 1"
  using assms
proof (induction n arbitrary: self w)
  case 0
  then show ?case by simp
next
  case (Suc n)
  have "trace_below (world_after (connect hs E self w))"
    using Suc.prems(1) by (rule connect_trace_below)
  moreover have "\<forall>sk. handshakes_on sk (trace (world_after (connect hs E self w))) \<le> 1"
  proof
    fix sk
    show "handshakes_on sk (trace (world_after (connect hs E self w))) \<le> 1"
      using Suc.prems by (rule connect_handshakes_once)
  qed
  ultimately show ?case
    using Suc.IH by simp
qed

lemma initial_world_trace_below: "trace_below initial_world"
  by (simp add: trace_below_def initial_world_def ids_of_def)

lemma initial_world_no_handshakes: "handshakes_on sk (trace initial_world) = 0"
  by (simp add: handshakes_on_def initial_world_def)


subsection \<open>Construction\<close>

text \<open>
  C8. Constructing an adapter only stores its parameters. The base constructor returns the
  object that holds the host, the port and \<open>strict\<close> as it was passed on, with no
  transport handle; the constructor of \<open>HTTPTLSConnection\<close> returns, for a paired
  credential set, the object that holds in addition the six credential parameters as
  supplied, and rejects the others. Both return the world they were given: no call is
  logged and no socket is opened. A port left out at construction becomes 443.
\<close>

theorem construction_only_stores:
  "HTTPBaseTLSConnection_init h p s w =
     (\<lparr>host = h, port = (case p of None \<Rightarrow> 443 | Some n \<Rightarrow> n),
       strict = (case s of None \<Rightarrow> Omitted | Some b \<Rightarrow> Passed b), sock = None\<rparr>, w)
   \<and> HTTPTLSConnection_init h p u pw c k f st w =
     (if pairing_ok u pw c k
      then Inr \<lparr>host = h, port = (case p of None \<Rightarrow> 443 | Some n \<Rightarrow> n),
                strict = Omitted, sock = None,
                username = u, password = pw, certChain = c, privateKey = k,
                x509Fingerprint = f, settings = st\<rparr>
      else Inl ConfigurationError, w)"
  by (simp add: HTTPTLSConnection_init_def HTTPBaseTLSConnection_init_def
      HTTPConnection_init_def ClientHelper_init_def default_port_def split: option.splits)

text \<open>
  C10. Every \<open>HTTPTLSConnection\<close> that is constructed has had the constructor of the
  underlying HTTP connection called without \<open>strict\<close>: the concrete constructor has
  no such parameter and calls the base constructor with host and port only, and the base
  constructor, whose \<open>strict\<close> is then \<open>None\<close>, makes the call that leaves
  \<open>strict\<close> out. (Given a \<open>strict\<close>, the base constructor passes it on.)
\<close>

theorem strict_never_forwarded:
  assumes "HTTPTLSConnection_init h p u pw c k f st w = (Inr self, w')"
  shows "strict self = Omitted
    \<and> fst (HTTPBaseTLSConnection_init h p None w) =
        fst (HTTPConnection_init default_port h p Omitted w)
    \<and> strict (fst (HTTPBaseTLSConnection_init h p (Some b) w)) = Passed b"
  using assms
  by (auto simp: HTTPTLSConnection_init_def HTTPBaseTLSConnection_init_def
      HTTPConnection_init_def ClientHelper_init_def split: if_splits)

theorem strict_never_forwarded_witness:
  "HTTPTLSConnection_init ''example.test'' None (Some ''alice'') (Some ''secret'') None None
     None None initial_world = (Inr (example_client), initial_world)
   \<and> strict example_client = Omitted"
proof -
  have i: "HTTPTLSConnection_init ''example.test'' None (Some ''alice'') (Some ''secret'') None
     None None None initial_world = (Inr (example_client), initial_world)"
    by (simp add: HTTPTLSConnection_init_def HTTPBaseTLSConnection_init_def
        HTTPConnection_init_def ClientHelper_init_def pairing_ok_def example_client_def
        default_port_def)
  show ?thesis
    using i strict_never_forwarded [OF i]
    by simp
qed

text \<open>
  C1. For every credential set that violates the pairing invariant (a username without a
  password, a certificate chain without a private key, or the converse of either), the
  construction of the adapter fails with a configuration error, and the world is as it was:
  no call has been made and no socket opened.
\<close>

theorem unpaired_credentials_rejected:
  assumes "\<not> pairing_ok u pw c k"
  shows "HTTPTLSConnection_init h p u pw c k f st w = (Inl ConfigurationError, w)
    \<and> new_events w (snd (HTTPTLSConnection_init h p u pw c k f st w)) = []
    \<and> opened (snd (HTTPTLSConnection_init h p u pw c k f st w)) = opened w"
  using assms
  by (simp add: HTTPTLSConnection_init_def HTTPBaseTLSConnection_init_def
      HTTPConnection_init_def ClientHelper_init_def new_events_def)

theorem unpaired_credentials_rejected_witness:
  "\<not> pairing_ok (Some ''alice'') None None None
   \<and> HTTPTLSConnection_init ''example.test'' (Some 443) (Some ''alice'') None None None
        None None initial_world = (Inl ConfigurationError, initial_world)
   \<and> \<not> pairing_ok None None (Some 7) None
   \<and> HTTPTLSConnection_init ''example.test'' None None None (Some 7) None
        None None initial_world = (Inl ConfigurationError, initial_world)"
proof -
  have a: "\<not> pairing_ok (Some ''alice'') None None None"
    by (simp add: pairing_ok_def)
  have b: "\<not> pairing_ok None None (Some 7) None"
    by (simp add: pairing_ok_def)
  show ?thesis
    using a b
      unpaired_credentials_rejected [OF a, of "''example.test''" "Some 443" None None initial_world]
      unpaired_credentials_rejected [OF b, of "''example.test''" None None None initial_world]
    by simp
qed

subsection \<open>The steps of connect()\<close>

text \<open>
  C3. The calls a call of \<open>connect()\<close> makes are, in this order: create a new stream
  socket, set its timeout where the platform can, connect it to (host, port), construct a
  new session over that socket, and invoke the hook on that session; a call that raises
  ends the sequence there. The hook is invoked on the object whose transport handle is
  already the new session. A call that gets as far as the hook invokes it exactly once, on
  the new socket's session and on no other socket; and over any number of calls of
  \<open>connect()\<close> since the start of the program, no socket has the hook invoked twice.
\<close>

theorem connect_steps_in_order:
  "new_events w (world_after (connect hs E self w)) =
     (if socket_error E (next_id w) = None
      then opening_steps E (host self) (port self) (next_id w) @
           (if connect_error E (next_id w) (host self) (port self) = None
               \<and> tls_init_error E (next_id w) = None
            then [EvTLSConnection (new_session w), EvHandshake (new_session w)] else [])
      else [])
   \<and> new_session w = \<lparr>tls_id = Suc (next_id w), tls_sock = next_id w\<rparr>
   \<and> raised (connect hs E self w) =
       (if reaches_hook E self w
        then fst (hs (self\<lparr>sock := Some (new_session w)\<rparr>) (new_session w)
                    (insert (next_id w) (opened w)))
        else transport_error E self w)
   \<and> handshakes_on sk (new_events w (world_after (connect hs E self w))) =
       (if reaches_hook E self w \<and> sk = next_id w then 1 else 0)
   \<and> handshakes_on sk (trace (snd (connects hs E n self initial_world))) \<le> 1"
proof -
  have "raised (connect hs E self w) =
       (if reaches_hook E self w
        then fst (hs (self\<lparr>sock := Some (new_session w)\<rparr>) (new_session w)
                    (insert (next_id w) (opened w)))
        else transport_error E self w)"
    by (auto simp: connect_raised reaches_hook_iff hook_call_def)
  moreover have "handshakes_on sk (trace (snd (connects hs E n self initial_world))) \<le> 1"
    by (rule connects_handshakes_once)
       (simp_all add: initial_world_trace_below initial_world_no_handshakes)
  moreover note connect_new_events [of w hs E self]
    handshakes_on_new_events [of sk w hs E self]
  moreover have "new_session w = \<lparr>tls_id = Suc (next_id w), tls_sock = next_id w\<rparr>"
    by (simp add: new_session_def)
  ultimately show ?thesis
    by blast
qed

theorem connect_steps_in_order_witness:
  "new_events initial_world
     (world_after (connect accepting_handshake reachable_env example_client initial_world)) =
     [EvSocket AF_INET SOCK_STREAM 0, EvSetTimeout 0 10, EvConnect 0 ''example.test'' 443,
      EvTLSConnection \<lparr>tls_id = 1, tls_sock = 0\<rparr>, EvHandshake \<lparr>tls_id = 1, tls_sock = 0\<rparr>]
   \<and> raised (connect accepting_handshake reachable_env example_client initial_world) = None
   \<and> trace (snd (connects accepting_handshake reachable_env (Suc (Suc 0)) example_client
        initial_world)) =
     [EvSocket AF_INET SOCK_STREAM 0, EvSetTimeout 0 10, EvConnect 0 ''example.test'' 443,
      EvTLSConnection \<lparr>tls_id = 1, tls_sock = 0\<rparr>, EvHandshake \<lparr>tls_id = 1, tls_sock = 0\<rparr>,
      EvSocket AF_INET SOCK_STREAM 2, EvSetTimeout 2 10, EvConnect 2 ''example.test'' 443,
      EvTLSConnection \<lparr>tls_id = 3, tls_sock = 2\<rparr>, EvHandshake \<lparr>tls_id = 3, tls_sock = 2\<rparr>]
   \<and> handshakes_on 0 (trace (snd (connects accepting_handshake reachable_env (Suc (Suc 0))
        example_client initial_world))) = 1
   \<and> handshakes_on 2 (trace (snd (connects accepting_handshake reachable_env (Suc (Suc 0))
        example_client initial_world))) = 1"
proof -
  have t: "trace (snd (connects accepting_handshake reachable_env (Suc (Suc 0)) example_client
        initial_world)) =
     [EvSocket AF_INET SOCK_STREAM 0, EvSetTimeout 0 10, EvConnect 0 ''example.test'' 443,
      EvTLSConnection \<lparr>tls_id = 1, tls_sock = 0\<rparr>, EvHandshake \<lparr>tls_id = 1, tls_sock = 0\<rparr>,
      EvSocket AF_INET SOCK_STREAM 2, EvSetTimeout 2 10, EvConnect 2 ''example.test'' 443,
      EvTLSConnection \<lparr>tls_id = 3, tls_sock = 2\<rparr>, EvHandshake \<lparr>tls_id = 3, tls_sock = 2\<rparr>]"
    by (simp add: connect_def socket_socket_def sock_connect_def settimeout_def log_def
        TLSConnection_init_def Let_def initial_world_def reachable_env_def
        example_client_def accepting_handshake_def)
  show ?thesis
    using connect_steps_in_order [where hs = accepting_handshake and E = reachable_env
      and self = example_client and w = initial_world and sk = 0 and n = "Suc (Suc 0)"]
    unfolding t
    by (simp add: reaches_hook_def reachable_env_def opening_steps_def initial_world_def
      example_client_def accepting_handshake_def handshakes_on_def new_session_def)
qed

text \<open>
  C6. During \<open>connect()\<close> the timeout 10 is set on the new socket, between its creation
  and \<open>sock.connect\<close>, exactly when the platform's sockets have \<open>settimeout\<close>; no
  other timeout is set. Whether the platform has it changes nothing else: the exception
  or normal return of \<open>connect()\<close>, the object and the open sockets are the same with
  and without it.
\<close>

theorem timeout_best_effort:
  "timeouts_applied (new_events w (world_after (connect hs E self w))) =
     (if has_settimeout E \<and> socket_error E (next_id w) = None then [(next_id w, 10)] else [])
   \<and> take (length (opening_steps E (host self) (port self) (next_id w)))
        (new_events w (world_after (connect hs E self w))) =
       (if socket_error E (next_id w) = None
        then opening_steps E (host self) (port self) (next_id w) else [])
   \<and> raised (connect hs (E\<lparr>has_settimeout := b\<rparr>) self w) = raised (connect hs E self w)
   \<and> object_after (connect hs (E\<lparr>has_settimeout := b\<rparr>) self w)
       = object_after (connect hs E self w)
   \<and> opened (world_after (connect hs (E\<lparr>has_settimeout := b\<rparr>) self w))
       = opened (world_after (connect hs E self w))"
proof -
  have "timeouts_applied (new_events w (world_after (connect hs E self w))) =
     (if has_settimeout E \<and> socket_error E (next_id w) = None then [(next_id w, 10)] else [])"
    by (simp add: connect_new_events timeouts_applied_opening)
  moreover have "take (length (opening_steps E (host self) (port self) (next_id w)))
        (new_events w (world_after (connect hs E self w))) =
       (if socket_error E (next_id w) = None
        then opening_steps E (host self) (port self) (next_id w) else [])"
    by (simp add: connect_new_events)
  moreover have "raised (connect hs (E\<lparr>has_settimeout := b\<rparr>) self w) = raised (connect hs E self w)"
    by (rule connect_swap_timeout_raised)
  moreover have "object_after (connect hs (E\<lparr>has_settimeout := b\<rparr>) self w)
       = object_after (connect hs E self w)"
    by (simp add: connect_object reaches_hook_def)
  moreover have "opened (world_after (connect hs (E\<lparr>has_settimeout := b\<rparr>) self w))
       = opened (world_after (connect hs E self w))"
    by (simp add: connect_opened reaches_hook_def)
  ultimately show ?thesis
    by blast
qed

text \<open>
  C9. \<open>connect()\<close> assigns the transport handle before it invokes the hook: the hook
  runs on the object whose \<open>sock\<close> is the new session, and the new session wraps the
  socket that was just connected. So whenever the hook is reached and does not itself
  assign \<open>sock\<close>, the handle after \<open>connect()\<close> is the new session, whether the hook
  raised or returned and whatever the handle was before.
\<close>

theorem handle_replaced_before_handshake:
  assumes "reaches_hook E self w"
    and "\<forall>a t s. sock (fst (snd (hs a t s))) = sock a"
  shows "raised (connect hs E self w) =
           fst (hs (self\<lparr>sock := Some (new_session w)\<rparr>) (new_session w)
                  (insert (next_id w) (opened w)))
    \<and> sock (object_after (connect hs E self w)) = Some (new_session w)
    \<and> tls_sock (new_session w) = next_id w
    \<and> EvConnect (next_id w) (host self) (port self)
         \<in> set (new_events w (world_after (connect hs E self w)))"
proof -
  have "transport_error E self w = None"
    using assms(1) by (simp add: reaches_hook_iff)
  then have "raised (connect hs E self w) =
           fst (hs (self\<lparr>sock := Some (new_session w)\<rparr>) (new_session w)
                  (insert (next_id w) (opened w)))"
    by (simp add: connect_raised hook_call_def)
  moreover have "sock (object_after (connect hs E self w)) = Some (new_session w)"
    using assms by (simp add: connect_object hook_call_def)
  moreover have "tls_sock (new_session w) = next_id w"
    by (simp add: new_session_def)
  moreover have "EvConnect (next_id w) (host self) (port self)
         \<in> set (new_events w (world_after (connect hs E self w)))"
    using assms(1) by (simp add: connect_new_events reaches_hook_def opening_steps_def)
  ultimately show ?thesis
    by blast
qed

theorem handle_replaced_before_handshake_witness:
  "reaches_hook reachable_env example_base initial_world
   \<and> raised (connect HTTPBaseTLSConnection_handshake reachable_env example_base initial_world)
       = Some NotImplementedError
   \<and> sock (object_after
        (connect HTTPBaseTLSConnection_handshake reachable_env example_base initial_world))
       = Some \<lparr>tls_id = 1, tls_sock = 0\<rparr>
   \<and> EvConnect 0 ''example.test'' 443
       \<in> set (new_events initial_world (world_after
            (connect HTTPBaseTLSConnection_handshake reachable_env example_base initial_world)))"
proof -
  have r: "reaches_hook reachable_env example_base initial_world"
    by (simp add: reaches_hook_def reachable_env_def)
  have k: "\<forall>a t s. sock (fst (snd (HTTPBaseTLSConnection_handshake
              (a :: HTTPBaseTLSConnection) t s))) = sock a"
    by (simp add: HTTPBaseTLSConnection_handshake_def)
  show ?thesis
    using r handle_replaced_before_handshake
            [where hs = HTTPBaseTLSConnection_handshake, OF r k]
    by (simp add: new_session_def initial_world_def example_base_def
        HTTPBaseTLSConnection_handshake_def)
qed

subsection \<open>Errors\<close>

text \<open>
  C7. The hook of the base adapter is abstract: invoked on any object and session it raises
  \<open>NotImplementedError\<close> and does nothing else (the object and the open sockets are as
  before). Hence \<open>connect()\<close> on a base adapter never returns normally: when the socket
  is created and connected and the session constructed, so that the hook is invoked, it
  fails with \<open>NotImplementedError\<close>; a call that raises before the hook ends
  \<open>connect()\<close> with its own exception.
\<close>

theorem base_handshake_not_implemented:
  "HTTPBaseTLSConnection_handshake self tls socks = (Some NotImplementedError, self, socks)
   \<and> raised (connect HTTPBaseTLSConnection_handshake E self w) =
       (case transport_error E self w of
          Some e \<Rightarrow> Some e
        | None \<Rightarrow> Some NotImplementedError)
   \<and> raised (connect HTTPBaseTLSConnection_handshake E self w) \<noteq> None"
  by (simp add: connect_raised hook_call_def HTTPBaseTLSConnection_handshake_def
      split: option.splits)

text \<open>
  C5. Whenever the hook that \<open>connect()\<close> invokes raises an error, \<open>connect()\<close>
  fails with exactly that error, whatever its kind. The same holds when the hook is
  \<open>HTTPTLSConnection._handshake\<close>, which passes on what \<open>ClientHelper._handshake\<close>
  raises. There is no retry: the call has created one socket and one session and has
  invoked the hook once.
\<close>

theorem handshake_error_propagates:
  assumes "reaches_hook E self w"
    and "fst (hs (self\<lparr>sock := Some (new_session w)\<rparr>) (new_session w)
               (insert (next_id w) (opened w))) = Some e"
  shows "raised (connect hs E self w) = Some e
    \<and> raised (connect (HTTPTLSConnection_handshake hs) E self w) = Some e
    \<and> new_events w (world_after (connect hs E self w)) =
        opening_steps E (host self) (port self) (next_id w)
          @ [EvTLSConnection (new_session w), EvHandshake (new_session w)]"
proof -
  have te: "transport_error E self w = None"
    using assms(1) by (simp add: reaches_hook_iff)
  have hc: "fst (hook_call hs self w) = Some e"
    using assms(2) by (simp add: hook_call_def)
  have same: "HTTPTLSConnection_handshake hs = hs"
    by (rule ext)+ (simp add: HTTPTLSConnection_handshake_def)
  have "raised (connect hs E self w) = Some e"
    using te hc by (simp add: connect_raised)
  moreover have "new_events w (world_after (connect hs E self w)) =
        opening_steps E (host self) (port self) (next_id w)
          @ [EvTLSConnection (new_session w), EvHandshake (new_session w)]"
    using assms(1) by (simp add: connect_new_events reaches_hook_def)
  ultimately show ?thesis
    by (simp add: same)
qed

theorem handshake_error_propagates_witness:
  "reaches_hook reachable_env example_base initial_world
   \<and> raised (connect failing_handshake reachable_env example_base initial_world)
       = Some (HandshakeError ''handshake_failure'')
   \<and> raised (connect (HTTPTLSConnection_handshake failing_handshake) reachable_env
         example_base initial_world) = Some (HandshakeError ''handshake_failure'')
   \<and> new_events initial_world
        (world_after (connect failing_handshake reachable_env example_base initial_world)) =
       [EvSocket AF_INET SOCK_STREAM 0, EvSetTimeout 0 10, EvConnect 0 ''example.test'' 443,
        EvTLSConnection \<lparr>tls_id = 1, tls_sock = 0\<rparr>, EvHandshake \<lparr>tls_id = 1, tls_sock = 0\<rparr>]"
proof -
  have r: "reaches_hook reachable_env example_base initial_world"
    by (simp add: reaches_hook_def reachable_env_def)
  have f: "fst (failing_handshake (example_base\<lparr>sock := Some (new_session initial_world)\<rparr>)
             (new_session initial_world)
             (insert (next_id initial_world) (opened initial_world)))
           = Some (HandshakeError ''handshake_failure'')"
    by (simp add: failing_handshake_def)
  show ?thesis
    using r handshake_error_propagates [where hs = failing_handshake, OF r f]
    by (simp add: opening_steps_def new_session_def reachable_env_def example_base_def
        initial_world_def)
qed

text \<open>
  C2, as the code has it. For every host, port and credential set, and every hook that does
  not itself assign \<open>sock\<close>: when \<open>connect()\<close> returns normally, the transport
  handle of the adapter is the new session. When it fails before the hook (the socket
  could not be created or connected, or the session not constructed), the object is as it
  was, so an adapter without a transport handle still has none and owns no socket. When
  it fails in the hook, the transport handle is the new session and \<open>connect()\<close> has
  closed nothing: the open sockets are those the hook left open, and the adapter owns a
  live raw socket exactly when the hook did not close the new one.
\<close>

theorem connect_outcomes:
  assumes "\<forall>a t s. sock (fst (snd (hs a t s))) = sock a"
  shows "(raised (connect hs E self w) = None \<longrightarrow>
            reaches_hook E self w
            \<and> sock (object_after (connect hs E self w)) = Some (new_session w))
    \<and> (raised (connect hs E self w) \<noteq> None \<and> \<not> reaches_hook E self w \<longrightarrow>
            object_after (connect hs E self w) = self
            \<and> (sock self = None \<longrightarrow>
                 \<not> owns_live_socket (object_after (connect hs E self w))
                      (world_after (connect hs E self w))))
    \<and> (raised (connect hs E self w) \<noteq> None \<and> reaches_hook E self w \<longrightarrow>
            sock (object_after (connect hs E self w)) = Some (new_session w)
            \<and> opened (world_after (connect hs E self w))
                 = snd (snd (hs (self\<lparr>sock := Some (new_session w)\<rparr>) (new_session w)
                                (insert (next_id w) (opened w))))
            \<and> owns_live_socket (object_after (connect hs E self w))
                 (world_after (connect hs E self w))
               = (next_id w \<in> snd (snd (hs (self\<lparr>sock := Some (new_session w)\<rparr>)
                                   (new_session w) (insert (next_id w) (opened w))))))"
proof (cases "reaches_hook E self w")
  case True
  then have s: "sock (object_after (connect hs E self w)) = Some (new_session w)"
    using assms by (simp add: connect_object hook_call_def)
  have o: "opened (world_after (connect hs E self w))
             = snd (snd (hs (self\<lparr>sock := Some (new_session w)\<rparr>) (new_session w)
                                (insert (next_id w) (opened w))))"
    using True by (simp add: connect_opened hook_call_def)
  show ?thesis
    using True s o by (simp add: owns_live_socket_def new_session_def)
next
  case False
  then have "transport_error E self w \<noteq> None"
    by (simp add: reaches_hook_iff)
  then have f: "raised (connect hs E self w) \<noteq> None"
    by (auto simp: connect_raised)
  have s: "object_after (connect hs E self w) = self"
    using False by (rule connect_object_early)
  show ?thesis
    using False f s by (simp add: owns_live_socket_def)
qed

theorem connect_outcomes_witness:
  "(\<forall>a t s. sock (fst (snd (accepting_handshake (a :: HTTPTLSConnection) t s))) = sock a)
   \<and> raised (connect accepting_handshake reachable_env example_client initial_world) = None
   \<and> reaches_hook reachable_env example_client initial_world
   \<and> sock (object_after (connect accepting_handshake reachable_env example_client
        initial_world)) = Some \<lparr>tls_id = 1, tls_sock = 0\<rparr>"
proof -
  have k: "\<forall>a t s. sock (fst (snd (accepting_handshake (a :: HTTPTLSConnection) t s))) = sock a"
    by (simp add: accepting_handshake_def)
  have r: "reaches_hook reachable_env example_client initial_world"
    by (simp add: reaches_hook_def reachable_env_def)
  have n: "raised (connect accepting_handshake reachable_env example_client initial_world)
            = None"
    unfolding connect_reaches_hook [OF r]
    by (simp add: hook_call_def accepting_handshake_def)
  show ?thesis
    using k n
      connect_outcomes [where hs = accepting_handshake and E = reachable_env
        and self = example_client and w = initial_world, OF k]
    by (simp add: new_session_def initial_world_def)
qed

text \<open>
  The claim as the spec states it, that a failed \<open>connect()\<close> leaves no live raw socket
  owned by the adapter, fails: an \<open>HTTPTLSConnection\<close> constructed with the pair
  alice/secret, on a network where the connection succeeds, with a handshake that raises
  without closing the socket. \<open>connect()\<close> fails with the handshake's error, the
  adapter's transport handle is the session over socket 0, and socket 0 is open.
\<close>

theorem failed_handshake_leaves_socket_open:
  "fst (HTTPTLSConnection_init ''example.test'' (Some 443) (Some ''alice'') (Some ''secret'')
          None None None None initial_world) = Inr example_client
   \<and> raised (connect (HTTPTLSConnection_handshake failing_handshake) reachable_env
              example_client initial_world) = Some (HandshakeError ''handshake_failure'')
   \<and> sock (object_after (connect (HTTPTLSConnection_handshake failing_handshake) reachable_env
              example_client initial_world)) = Some \<lparr>tls_id = 1, tls_sock = 0\<rparr>
   \<and> 0 \<in> opened (world_after (connect (HTTPTLSConnection_handshake failing_handshake)
              reachable_env example_client initial_world))
   \<and> owns_live_socket
        (object_after (connect (HTTPTLSConnection_handshake failing_handshake) reachable_env
              example_client initial_world))
        (world_after (connect (HTTPTLSConnection_handshake failing_handshake) reachable_env
              example_client initial_world))"
proof -
  have r: "reaches_hook reachable_env example_client initial_world"
    by (simp add: reaches_hook_def reachable_env_def)
  have c: "connect (HTTPTLSConnection_handshake failing_handshake) reachable_env
              example_client initial_world =
           (Some (HandshakeError ''handshake_failure''),
            example_client\<lparr>sock := Some \<lparr>tls_id = 1, tls_sock = 0\<rparr>\<rparr>,
            \<lparr>next_id = 2, opened = {0},
             trace = [EvSocket AF_INET SOCK_STREAM 0, EvSetTimeout 0 10, EvConnect 0 ''example.test'' 443,
                      EvTLSConnection \<lparr>tls_id = 1, tls_sock = 0\<rparr>,
                      EvHandshake \<lparr>tls_id = 1, tls_sock = 0\<rparr>]\<rparr>)"
    unfolding connect_reaches_hook [OF r]
    by (simp add: hook_call_def HTTPTLSConnection_handshake_def
        failing_handshake_def new_session_def opening_steps_def initial_world_def
        example_client_def reachable_env_def)
  have i: "fst (HTTPTLSConnection_init ''example.test'' (Some 443) (Some ''alice'')
             (Some ''secret'') None None None None initial_world) = Inr example_client"
    by (simp add: HTTPTLSConnection_init_def HTTPBaseTLSConnection_init_def
        HTTPConnection_init_def ClientHelper_init_def pairing_ok_def example_client_def)
  show ?thesis
    by (simp add: i c owns_live_socket_def)
qed

subsection \<open>Successive calls\<close>



end
